theory Spec2Isabelle
  imports Complex_Main
begin

section \<open>Strings\<close>

text \<open>
  A JavaScript string is a sequence of UTF-16 code units. The regular expressions of
  the source carry no \<open>u\<close> flag, so they work on code units as well: a string is
  modelled as the list of its code units.
\<close>

type_synonym jsstring = "nat list"

definition asc :: "string \<Rightarrow> jsstring" where
  "asc s = map of_char s"

text \<open>
  The class \<open>\s\<close> of a regular expression and the characters removed by
  \<open>String.prototype.trim\<close> are the same set: WhiteSpace and LineTerminator of ECMAScript.
\<close>

definition isSpace :: "nat \<Rightarrow> bool" where
  "isSpace c = (c = 9 \<or> c = 10 \<or> c = 11 \<or> c = 12 \<or> c = 13 \<or> c = 32 \<or> c = 160
     \<or> c = 5760 \<or> (8192 \<le> c \<and> c \<le> 8202) \<or> c = 8232 \<or> c = 8233 \<or> c = 8239
     \<or> c = 8287 \<or> c = 12288 \<or> c = 65279)"

text \<open>
  \<open>String.prototype.toLowerCase\<close>. It is exact on Basic Latin and on the two characters
  outside ASCII whose lower case contains an ASCII letter: the Kelvin sign U+212A becomes
  \<open>k\<close>, and U+0130 becomes \<open>i\<close> followed by U+0307. Every other cased character has a
  lower case of as many code units, none of them an ASCII letter, an ideograph or
  whitespace: the model leaves those characters as they are.
\<close>

definition lowerUnit :: "nat \<Rightarrow> jsstring" where
  "lowerUnit c =
     (if 65 \<le> c \<and> c \<le> 90 then [c + 32]
      else if c = 8490 then [107]
      else if c = 304 then [105, 775]
      else [c])"

definition toLowerCase :: "jsstring \<Rightarrow> jsstring" where
  "toLowerCase s = concat (map lowerUnit s)"

text \<open>\<open>s.includes(t)\<close>: \<open>t\<close> occurs in \<open>s\<close> as a contiguous run.\<close>

fun startsWith :: "jsstring \<Rightarrow> jsstring \<Rightarrow> bool" where
  "startsWith s [] = True"
| "startsWith [] (p # ps) = False"
| "startsWith (c # cs) (p # ps) = (c = p \<and> startsWith cs ps)"

fun includesStr :: "jsstring \<Rightarrow> jsstring \<Rightarrow> bool" where
  "includesStr [] t = (t = [])"
| "includesStr (c # cs) t = (startsWith (c # cs) t \<or> includesStr cs t)"

text \<open>\<open>s.split(sep)\<close> for a separator of one code unit.\<close>

fun splitOn :: "nat \<Rightarrow> jsstring \<Rightarrow> jsstring list" where
  "splitOn sep [] = [[]]"
| "splitOn sep (c # cs) =
     (if c = sep then [] # splitOn sep cs
      else (case splitOn sep cs of [] \<Rightarrow> [[c]] | w # ws \<Rightarrow> (c # w) # ws))"

text \<open>\<open>lines.join(sep)\<close> for a separator of one code unit.\<close>

fun joinWith :: "nat \<Rightarrow> jsstring list \<Rightarrow> jsstring" where
  "joinWith sep [] = []"
| "joinWith sep [l] = l"
| "joinWith sep (l # m # ls) = l @ sep # joinWith sep (m # ls)"

definition trim :: "jsstring \<Rightarrow> jsstring" where
  "trim s = rev (dropWhile isSpace (rev (dropWhile isSpace s)))"

text \<open>
  \<open>s.split(/\s+/)\<close>: the pieces between the maximal runs of whitespace; a string that
  starts or ends with whitespace yields an empty first or last piece.
\<close>

fun splitWsFrom :: "jsstring \<Rightarrow> bool \<Rightarrow> jsstring \<Rightarrow> jsstring list" where
  "splitWsFrom piece inSpace [] = [piece]"
| "splitWsFrom piece inSpace (c # cs) =
     (if isSpace c then
        (if inSpace then splitWsFrom [] True cs else piece # splitWsFrom [] True cs)
      else splitWsFrom (piece @ [c]) False cs)"

definition splitWs :: "jsstring \<Rightarrow> jsstring list" where
  "splitWs s = splitWsFrom [] False s"

text \<open>\<open>[...new Set(xs)]\<close>: the distinct elements, each at its first occurrence.\<close>

fun dedupFirst :: "'a list \<Rightarrow> 'a list" where
  "dedupFirst [] = []"
| "dedupFirst (x # xs) = x # dedupFirst (filter (\<lambda>y. y \<noteq> x) xs)"

section \<open>Keyword extraction (SemanticIndex.ts)\<close>

text \<open>
  The stop words of \<open>extractKeywordsFromString\<close>: 27 English words and eleven
  Chinese words of one ideograph each (U+7684, U+4E86, U+662F, U+5728, U+548C, U+6709,
  U+6211, U+4F60, U+4ED6, U+5979, U+5B83).
\<close>

definition stopWords :: "jsstring list" where
  "stopWords =
     map asc [''the'', ''a'', ''an'', ''is'', ''are'', ''was'', ''were'', ''be'', ''been'', ''being'',
       ''have'', ''has'', ''had'', ''do'', ''does'', ''did'', ''will'', ''would'', ''could'',
       ''should'', ''may'', ''might'', ''must'', ''shall'', ''can'', ''need'', ''dare'']
     @ [[30340], [20102], [26159], [22312], [21644], [26377], [25105], [20320], [20182],
        [22905], [23427]]"

text \<open>
  The character class \<open>[U+4E00-U+9FA5, a-z, 0-9, \s]\<close>; \<open>replace\<close> puts a space for every
  code unit outside it.
\<close>

definition allowedUnit :: "nat \<Rightarrow> bool" where
  "allowedUnit c = ((19968 \<le> c \<and> c \<le> 40869) \<or> (97 \<le> c \<and> c \<le> 122)
     \<or> (48 \<le> c \<and> c \<le> 57) \<or> isSpace c)"

definition replaceDisallowed :: "jsstring \<Rightarrow> jsstring" where
  "replaceDisallowed s = map (\<lambda>c. if allowedUnit c then c else 32) s"

definition extractKeywordsFromString :: "jsstring \<Rightarrow> jsstring list" where
  "extractKeywordsFromString text =
     (if text = [] then []
      else let words = filter (\<lambda>word. length word > 1)
                         (splitWs (replaceDisallowed (toLowerCase text)))
           in filter (\<lambda>word. word \<notin> set stopWords) words)"

text \<open>
  The claim's description of keyword extraction, as a list in text order: the tokens of
  a text are its maximal runs of non-whitespace characters.
\<close>

function tokens :: "jsstring \<Rightarrow> jsstring list" where
  "tokens s =
     (case dropWhile isSpace s of
        [] \<Rightarrow> []
      | c # cs \<Rightarrow> (c # takeWhile (\<lambda>x. \<not> isSpace x) cs)
                    # tokens (dropWhile (\<lambda>x. \<not> isSpace x) cs))"
  by pat_completeness auto

termination tokens
proof (relation "measure length", goal_cases)
  case 1
  show ?case by simp
next
  case (2 s c cs)
  have "length (dropWhile (\<lambda>x. \<not> isSpace x) cs) \<le> length cs"
    by (rule length_dropWhile_le)
  also have "length cs < length (dropWhile isSpace s)"
    using 2 by simp
  also have "\<dots> \<le> length s"
    by (rule length_dropWhile_le)
  finally show ?case by simp
qed

declare tokens.simps [simp del]

definition keywordsAsDescribed :: "jsstring \<Rightarrow> jsstring list" where
  "keywordsAsDescribed text =
     filter (\<lambda>w. w \<notin> set stopWords)
       (filter (\<lambda>w. \<not> length w \<le> 1)
          (tokens (map (\<lambda>c. if allowedUnit c then c else 32) (toLowerCase text))))"

definition keywordSetAsDescribed :: "jsstring \<Rightarrow> jsstring set" where
  "keywordSetAsDescribed text = set (keywordsAsDescribed text)"

section \<open>Records (types/index.ts)\<close>

record ConversationMetadata =
  conversationId :: jsstring
  title :: jsstring
  startTime :: jsstring
  endTime :: jsstring
  userName :: jsstring
  project :: jsstring
  metaSummary :: jsstring

record DecisionRecord =
  decisionPoint :: jsstring
  decision :: jsstring
  reason :: jsstring

record ProblemSolution =
  problem :: jsstring
  solution :: jsstring
  result :: jsstring

record Technology =
  name :: jsstring
  purpose :: jsstring

record TechnicalDetails =
  usedTechnologies :: "Technology list"
  keyCodes :: "jsstring list"

datatype Priority = Low | Medium | High

record TodoItem =
  todoId :: jsstring
  task :: jsstring
  completed :: bool
  priority :: Priority

record ConversationRecord =
  metadata :: ConversationMetadata
  summary :: jsstring
  keyDecisions :: "DecisionRecord list"
  problemsAndSolutions :: "ProblemSolution list"
  technicalDetails :: TechnicalDetails
  todos :: "TodoItem list"
  userFeedback :: "jsstring option"
  relatedMemories :: "jsstring list"

section \<open>The keyword index (SemanticIndex.ts)\<close>

datatype EntryType = Conversation | Decision | Problem | Todo

text \<open>
  The weights 1.0, 0.9 and 0.95 and their sums are IEEE doubles in the source; the model
  computes with exact rationals.
\<close>

record IndexEntry =
  entryId :: jsstring
  entryType :: EntryType
  entryKeywords :: "jsstring list"
  timestamp :: jsstring
  entryConversationId :: jsstring
  relevanceScore :: rat

text \<open>
  A JavaScript \<open>Map\<close> iterates in the order in which its keys were first set: it is
  modelled as an association list in that order. \<open>set\<close> of a key that is present
  replaces the value where it stands; \<open>set\<close> of a new key appends.
\<close>

type_synonym ('k, 'v) jsmap = "('k \<times> 'v) list"

definition mapHas :: "('k, 'v) jsmap \<Rightarrow> 'k \<Rightarrow> bool" where
  "mapHas m k = (map_of m k \<noteq> None)"

definition mapGet :: "('k, 'v) jsmap \<Rightarrow> 'k \<Rightarrow> 'v option" where
  "mapGet m k = map_of m k"

definition mapSet :: "('k, 'v) jsmap \<Rightarrow> 'k \<Rightarrow> 'v \<Rightarrow> ('k, 'v) jsmap" where
  "mapSet m k v =
     (if mapHas m k then map (\<lambda>(k', v'). if k' = k then (k', v) else (k', v')) m
      else m @ [(k, v)])"

type_synonym index = "(jsstring, IndexEntry list) jsmap"

text \<open>
  The body of each of the three indexing loops:
  \<open>if (!index.has(kw)) index.set(kw, []); index.get(kw)?.push(entry)\<close>.
\<close>

definition pushEntry :: "IndexEntry \<Rightarrow> index \<Rightarrow> jsstring \<Rightarrow> index" where
  "pushEntry entry idx kw =
     (let idx' = (if \<not> mapHas idx kw then mapSet idx kw [] else idx)
      in case mapGet idx' kw of
           None \<Rightarrow> idx'
         | Some entries \<Rightarrow> mapSet idx' kw (entries @ [entry]))"

definition extractKeywords :: "ConversationRecord \<Rightarrow> jsstring list" where
  "extractKeywords conversation =
     dedupFirst
       (extractKeywordsFromString (title (metadata conversation))
        @ extractKeywordsFromString (summary conversation)
        @ extractKeywordsFromString (project (metadata conversation))
        @ map (\<lambda>tech. toLowerCase (name tech))
            (usedTechnologies (technicalDetails conversation)))"

definition conversationEntry :: "ConversationRecord \<Rightarrow> IndexEntry" where
  "conversationEntry conversation =
     \<lparr>entryId = conversationId (metadata conversation),
      entryType = Conversation,
      entryKeywords = extractKeywords conversation,
      timestamp = startTime (metadata conversation),
      entryConversationId = conversationId (metadata conversation),
      relevanceScore = 1.0\<rparr>"

definition decisionKeywords :: "DecisionRecord \<Rightarrow> jsstring list" where
  "decisionKeywords d =
     extractKeywordsFromString (decision d) @ extractKeywordsFromString (reason d)"

definition decisionEntry :: "ConversationRecord \<Rightarrow> DecisionRecord \<Rightarrow> IndexEntry" where
  "decisionEntry conversation d =
     \<lparr>entryId = conversationId (metadata conversation) @ asc ''_decision_'' @ decisionPoint d,
      entryType = Decision,
      entryKeywords = decisionKeywords d,
      timestamp = startTime (metadata conversation),
      entryConversationId = conversationId (metadata conversation),
      relevanceScore = 0.9\<rparr>"

definition psKeywords :: "ProblemSolution \<Rightarrow> jsstring list" where
  "psKeywords ps =
     extractKeywordsFromString (problem ps) @ extractKeywordsFromString (solution ps)"

definition psEntry :: "ConversationRecord \<Rightarrow> ProblemSolution \<Rightarrow> IndexEntry" where
  "psEntry conversation ps =
     \<lparr>entryId = conversationId (metadata conversation) @ asc ''_problem_'' @ take 20 (problem ps),
      entryType = Problem,
      entryKeywords = psKeywords ps,
      timestamp = startTime (metadata conversation),
      entryConversationId = conversationId (metadata conversation),
      relevanceScore = 0.95\<rparr>"

text \<open>
  \<open>indexConversation\<close>: the conversation entry under each of its keywords, then one
  entry per decision and one per problem under each keyword of theirs. (The write of the
  index file that ends the call is left out: the index in memory is the state.)
\<close>

definition indexConversation :: "ConversationRecord \<Rightarrow> index \<Rightarrow> index" where
  "indexConversation conversation idx =
     (let idx1 = foldl (pushEntry (conversationEntry conversation)) idx
                   (extractKeywords conversation);
          idx2 = foldl (\<lambda>i d. foldl (pushEntry (decisionEntry conversation d)) i
                                    (decisionKeywords d))
                   idx1 (keyDecisions conversation);
          idx3 = foldl (\<lambda>i ps. foldl (pushEntry (psEntry conversation ps)) i
                                     (psKeywords ps))
                   idx2 (problemsAndSolutions conversation)
      in idx3)"

text \<open>
  \<open>clearOldEntries\<close>. The clock is an input: \<open>now\<close> is the value of
  \<open>new Date()\<close> in milliseconds, and the cutoff lies \<open>daysToKeep\<close> days of
  86400000 ms before it (\<open>setDate\<close> in a time zone without a clock change in
  between). \<open>parseDate\<close> stands for \<open>new Date(string)\<close>: the milliseconds of a
  string that parses, \<open>None\<close> for an Invalid Date, whose comparison with any date is
  false.
\<close>

definition cutoffDate :: "int \<Rightarrow> int \<Rightarrow> int" where
  "cutoffDate now daysToKeep = now - daysToKeep * 86400000"

definition isAfter :: "(jsstring \<Rightarrow> int option) \<Rightarrow> int \<Rightarrow> IndexEntry \<Rightarrow> bool" where
  "isAfter parseDate cutoff entry =
     (case parseDate (timestamp entry) of None \<Rightarrow> False | Some t \<Rightarrow> t > cutoff)"

text \<open>
  The loop visits every bucket once (deleting the key being visited, or setting it, does
  not disturb the iteration of a \<open>Map\<close>): a bucket is dropped when nothing of it is
  left and replaced by what is left otherwise.
\<close>

definition clearOldEntries ::
  "(jsstring \<Rightarrow> int option) \<Rightarrow> int \<Rightarrow> int \<Rightarrow> index \<Rightarrow> index" where
  "clearOldEntries parseDate now daysToKeep idx =
     concat (map (\<lambda>(keyword, entries).
                    let filteredEntries = filter (isAfter parseDate (cutoffDate now daysToKeep)) entries
                    in if length filteredEntries = 0 then [] else [(keyword, filteredEntries)])
               idx)"

text \<open>The invariant of the index: no key with an empty bucket.\<close>

definition bucketsNonEmpty :: "index \<Rightarrow> bool" where
  "bucketsNonEmpty idx = list_all (\<lambda>(keyword, entries). entries \<noteq> []) idx"

text \<open>\<open>index.get(k)\<close>, with the empty list for a key that is absent.\<close>

definition bucket :: "index \<Rightarrow> jsstring \<Rightarrow> IndexEntry list" where
  "bucket idx k = (case mapGet idx k of None \<Rightarrow> [] | Some entries \<Rightarrow> entries)"

section \<open>Retrieval (SemanticIndex.search)\<close>

type_synonym scores = "(jsstring, rat) jsmap"

text \<open>\<open>scores.set(entry.id, (scores.get(entry.id) || 0) + entry.relevanceScore)\<close>\<close>

definition addScore :: "scores \<Rightarrow> IndexEntry \<Rightarrow> scores" where
  "addScore scores entry =
     (let currentScore = (case mapGet scores (entryId entry) of None \<Rightarrow> 0 | Some v \<Rightarrow> v)
      in mapSet scores (entryId entry) (currentScore + relevanceScore entry))"

definition scoreKeyword :: "index \<Rightarrow> scores \<Rightarrow> jsstring \<Rightarrow> scores" where
  "scoreKeyword idx scores keyword =
     (case mapGet idx keyword of
        None \<Rightarrow> scores
      | Some entries \<Rightarrow> foldl addScore scores entries)"

definition computeScores :: "index \<Rightarrow> jsstring list \<Rightarrow> scores" where
  "computeScores idx queryKeywords = foldl (scoreKeyword idx) [] queryKeywords"

text \<open>
  \<open>sort((a, b) => b[1] - a[1])\<close>: \<open>Array.prototype.sort\<close> is stable, so pairs of equal
  score keep the order in which their ids entered \<open>scores\<close>.
\<close>

definition sortByScore :: "scores \<Rightarrow> scores" where
  "sortByScore scores = sort_key (\<lambda>p. - snd p) scores"

text \<open>\<open>xs.slice(0, n)\<close> for an integer \<open>n\<close>: a negative \<open>n\<close> counts from the end.\<close>

definition slice0 :: "'a list \<Rightarrow> int \<Rightarrow> 'a list" where
  "slice0 xs n = (if n < 0 then take (nat (int (length xs) + n)) xs else take (nat n) xs)"

text \<open>
  The innermost loop of \<open>search\<close>, over one bucket: the first entry with the wanted id
  is pushed with the accumulated score, unless the id has been seen; \<open>break\<close> leaves
  this loop only.
\<close>

fun scanBucket ::
  "jsstring \<Rightarrow> rat \<Rightarrow> IndexEntry list \<Rightarrow> IndexEntry list \<times> jsstring set
     \<Rightarrow> IndexEntry list \<times> jsstring set" where
  "scanBucket eid score [] st = st"
| "scanBucket eid score (entry # entries) (results, seenIds) =
     (if entryId entry = eid \<and> eid \<notin> seenIds
      then (results @ [entry\<lparr>relevanceScore := score\<rparr>], insert eid seenIds)
      else scanBucket eid score entries (results, seenIds))"

definition resolveEntry ::
  "index \<Rightarrow> IndexEntry list \<times> jsstring set \<Rightarrow> jsstring \<times> rat
     \<Rightarrow> IndexEntry list \<times> jsstring set" where
  "resolveEntry idx st p =
     foldl (\<lambda>st' bucket. scanBucket (fst p) (snd p) (snd bucket) st') st idx"

definition search :: "index \<Rightarrow> jsstring \<Rightarrow> int \<Rightarrow> IndexEntry list" where
  "search idx query limit =
     (let queryKeywords = extractKeywordsFromString query;
          scores = computeScores idx queryKeywords;
          sortedEntries = slice0 (sortByScore scores) limit
      in fst (foldl (resolveEntry idx) ([], {}) sortedEntries))"

definition getRelatedConversationIds :: "index \<Rightarrow> jsstring \<Rightarrow> int \<Rightarrow> jsstring list" where
  "getRelatedConversationIds idx query limit =
     dedupFirst (map entryConversationId (search idx query limit))"

text \<open>
  What \<open>search\<close> computes, said without loops: the hits of a query are the elements of
  the buckets of its keywords, bucket after bucket; the score of an id is the sum of the
  weights of the hits that carry it; an id resolves to the first entry of the index that
  carries it.
\<close>

definition hitsOf :: "index \<Rightarrow> jsstring list \<Rightarrow> IndexEntry list" where
  "hitsOf idx queryKeywords =
     concat (map (\<lambda>k. case mapGet idx k of None \<Rightarrow> [] | Some entries \<Rightarrow> entries) queryKeywords)"

definition totalWeight :: "IndexEntry list \<Rightarrow> jsstring \<Rightarrow> rat" where
  "totalWeight hits eid = sum_list (map relevanceScore (filter (\<lambda>e. entryId e = eid) hits))"

definition scoredIds :: "IndexEntry list \<Rightarrow> scores" where
  "scoredIds hits = map (\<lambda>eid. (eid, totalWeight hits eid)) (dedupFirst (map entryId hits))"

definition rankedScores :: "index \<Rightarrow> jsstring \<Rightarrow> int \<Rightarrow> scores" where
  "rankedScores idx query limit =
     slice0 (sort_key (\<lambda>p. - snd p) (scoredIds (hitsOf idx (extractKeywordsFromString query)))) limit"

definition resolved :: "index \<Rightarrow> jsstring \<times> rat \<Rightarrow> IndexEntry list" where
  "resolved idx p =
     (case find (\<lambda>e. entryId e = fst p) (concat (map snd idx)) of
        None \<Rightarrow> []
      | Some e \<Rightarrow> [e\<lparr>relevanceScore := snd p\<rparr>])"


section \<open>The record store (ConversationMemory)\<close>

text \<open>
  The files of the directory \<open>conversations\<close>: name and content, in the order in which
  \<open>list\<close> returns the names. \<open>write\<close> replaces the content of a file that exists and
  adds a file otherwise.
\<close>

type_synonym store = "(jsstring, jsstring) jsmap"

definition storageWrite :: "store \<Rightarrow> jsstring \<Rightarrow> jsstring \<Rightarrow> store" where
  "storageWrite st filename content = mapSet st filename content"

definition storageList :: "store \<Rightarrow> jsstring list" where
  "storageList st = map fst st"

text \<open>U+8FDB U+884C U+4E2D (in progress), written for an empty end time.\<close>

definition inProgress :: jsstring where
  "inProgress = [36827, 34892, 20013]"

text \<open>U+6682 U+65E0 U+6458 U+8981 (no summary yet), written for an empty summary.\<close>

definition noSummary :: jsstring where
  "noSummary = [26242, 26080, 25688, 35201]"

definition summaryHeading :: jsstring where
  "summaryHeading = asc ''## '' @ [23545, 35805, 25688, 35201]"

definition decisionsHeading :: jsstring where
  "decisionsHeading = asc ''## '' @ [20851, 38190, 20915, 31574]"

definition decisionsTableHead :: jsstring where
  "decisionsTableHead =
     asc ''| '' @ [20915, 31574, 28857] @ asc '' | '' @ [20915, 31574, 20869, 23481]
     @ asc '' | '' @ [20915, 31574, 29702, 30001] @ asc '' |''"

definition problemsHeading :: jsstring where
  "problemsHeading = asc ''## '' @ [38382, 39064, 19982, 35299, 20915, 26041, 26696]"

definition problemsTableHead :: jsstring where
  "problemsTableHead =
     asc ''| '' @ [38382, 39064] @ asc '' | '' @ [35299, 20915, 26041, 26696]
     @ asc '' | '' @ [32467, 26524] @ asc '' |''"

definition technicalHeading :: jsstring where
  "technicalHeading = asc ''## '' @ [25216, 26415, 32454, 33410]"

definition technologiesHeading :: jsstring where
  "technologiesHeading = asc ''### '' @ [20351, 29992, 30340, 25216, 26415]"

definition todosHeading :: jsstring where
  "todosHeading = asc ''## '' @ [24453, 21150, 20107, 39033]"

definition feedbackHeading :: jsstring where
  "feedbackHeading = asc ''## '' @ [29992, 25143, 21453, 39304]"

definition decisionRow :: "DecisionRecord \<Rightarrow> jsstring" where
  "decisionRow d =
     asc ''| '' @ decisionPoint d @ asc '' | '' @ decision d @ asc '' | '' @ reason d @ asc '' |''"

definition problemRow :: "ProblemSolution \<Rightarrow> jsstring" where
  "problemRow ps =
     asc ''| '' @ problem ps @ asc '' | '' @ solution ps @ asc '' | '' @ result ps @ asc '' |''"

definition technologyLine :: "Technology \<Rightarrow> jsstring" where
  "technologyLine tech = asc ''- '' @ name tech @ asc '': '' @ purpose tech"

definition todoLine :: "TodoItem \<Rightarrow> jsstring" where
  "todoLine todo =
     (let status = (if completed todo then asc ''[x]'' else asc ''[ ]'');
          prio = (if priority todo = High then asc ''!''
                  else if priority todo = Medium then asc ''?'' else [])
      in asc ''- '' @ status @ asc '' '' @ prio @ asc '' '' @ task todo)"

definition metadataLines :: "ConversationMetadata \<Rightarrow> jsstring list" where
  "metadataLines m =
     [asc ''---'',
      asc ''conversation_id: '' @ conversationId m,
      asc ''title: '' @ title m,
      asc ''start_time: '' @ startTime m,
      asc ''end_time: '' @ (if endTime m = [] then inProgress else endTime m),
      asc ''user_name: '' @ userName m,
      asc ''project: '' @ project m,
      asc ''summary: '' @ metaSummary m,
      asc ''---'',
      []]"

definition bodyLines :: "ConversationRecord \<Rightarrow> jsstring list" where
  "bodyLines record =
     [summaryHeading, [], (if summary record = [] then noSummary else summary record), []]
     @ (if length (keyDecisions record) > 0
        then [decisionsHeading, [], decisionsTableHead, asc ''|--------|----------|----------|'']
             @ map decisionRow (keyDecisions record) @ [[]]
        else [])
     @ (if length (problemsAndSolutions record) > 0
        then [problemsHeading, [], problemsTableHead, asc ''|------|----------|------|'']
             @ map problemRow (problemsAndSolutions record) @ [[]]
        else [])
     @ (if length (usedTechnologies (technicalDetails record)) > 0
        then [technicalHeading, [], technologiesHeading]
             @ map technologyLine (usedTechnologies (technicalDetails record)) @ [[]]
        else [])
     @ (if length (todos record) > 0
        then [todosHeading, []] @ map todoLine (todos record) @ [[]]
        else [])
     @ (case userFeedback record of
          None \<Rightarrow> []
        | Some feedback \<Rightarrow> if feedback = [] then [] else [feedbackHeading, [], feedback, []])"

definition formatConversationMarkdown :: "ConversationRecord \<Rightarrow> jsstring" where
  "formatConversationMarkdown record =
     joinWith 10 (metadataLines (metadata record) @ bodyLines record)"

text \<open>
  The loop of \<open>parseConversationMarkdown\<close> over the lines. \<open>meta\<close> is the plain
  object \<open>metadata\<close> that collects the pairs: only seven fixed keys of it are read afterwards. A line
  that contains a colon splits into at least two pieces, so the pattern of one piece is
  never met.
\<close>

fun parseLines ::
  "bool \<Rightarrow> (jsstring, jsstring) jsmap \<Rightarrow> jsstring list \<Rightarrow> (jsstring, jsstring) jsmap" where
  "parseLines inMetadata meta [] = meta"
| "parseLines inMetadata meta (line # lines) =
     (if line = asc ''---'' then parseLines (\<not> inMetadata) meta lines
      else
        let meta' =
              (if inMetadata \<and> includesStr line (asc '':'')
               then (case map trim (splitOn 58 line) of
                       key # value # rest \<Rightarrow> mapSet meta key value
                     | _ \<Rightarrow> meta)
               else meta)
        in if \<not> inMetadata \<and> startsWith line (asc ''##'') then meta'
           else parseLines inMetadata meta' lines)"

text \<open>\<open>metadata.key || ''\<close>\<close>

definition field :: "(jsstring, jsstring) jsmap \<Rightarrow> jsstring \<Rightarrow> jsstring" where
  "field meta key = (case mapGet meta key of None \<Rightarrow> [] | Some v \<Rightarrow> v)"

text \<open>
  Nothing in the body of \<open>parseConversationMarkdown\<close> throws, so the \<open>catch\<close> that
  returns \<open>null\<close> is never entered: the result is always a record.
\<close>

definition parseConversationMarkdown :: "jsstring \<Rightarrow> ConversationRecord option" where
  "parseConversationMarkdown content =
     (let lines = splitOn 10 content;
          meta = parseLines False [] lines
      in Some \<lparr>metadata =
                  \<lparr>conversationId = field meta (asc ''conversation_id''),
                   title = field meta (asc ''title''),
                   startTime = field meta (asc ''start_time''),
                   endTime = field meta (asc ''end_time''),
                   userName = field meta (asc ''user_name''),
                   project = field meta (asc ''project''),
                   metaSummary = field meta (asc ''summary'')\<rparr>,
                summary = [],
                keyDecisions = [],
                problemsAndSolutions = [],
                technicalDetails = \<lparr>usedTechnologies = [], keyCodes = []\<rparr>,
                todos = [],
                userFeedback = None,
                relatedMemories = []\<rparr>)"

text \<open>\<open>title.replace(/[^a-zA-Z0-9 U+4E00-U+9FA5]/g, '_')\<close>\<close>

definition sanitizeTitle :: "jsstring \<Rightarrow> jsstring" where
  "sanitizeTitle t =
     map (\<lambda>c. if (97 \<le> c \<and> c \<le> 122) \<or> (65 \<le> c \<and> c \<le> 90) \<or> (48 \<le> c \<and> c \<le> 57)
                  \<or> (19968 \<le> c \<and> c \<le> 40869) then c else 95) t"

text \<open>
  \<open>today\<close> is \<open>formatDate(new Date())\<close>, the date part of the clock when the file is
  written.
\<close>

definition conversationFilename :: "jsstring \<Rightarrow> jsstring \<Rightarrow> ConversationRecord \<Rightarrow> jsstring" where
  "conversationFilename today cid record =
     today @ asc ''_'' @ cid @ asc ''_'' @ sanitizeTitle (title (metadata record)) @ asc ''.md''"

definition saveConversation :: "store \<Rightarrow> jsstring \<Rightarrow> jsstring \<Rightarrow> ConversationRecord \<Rightarrow> store" where
  "saveConversation st today cid record =
     storageWrite st (conversationFilename today cid record) (formatConversationMarkdown record)"

definition loadConversation :: "store \<Rightarrow> jsstring \<Rightarrow> ConversationRecord option" where
  "loadConversation st cid =
     (case find (\<lambda>f. includesStr f cid) (storageList st) of
        None \<Rightarrow> None
      | Some matchingFile \<Rightarrow>
          (case mapGet st matchingFile of
             None \<Rightarrow> None
           | Some content \<Rightarrow> parseConversationMarkdown content))"

text \<open>
  \<open>throw new Error(`Conversation ${conversationId} not found`)\<close>. A mutating operation
  returns its outcome and the store it leaves. The clock and the random source are inputs:
  \<open>millis\<close> is \<open>Date.now()\<close> in decimal, \<open>uuid\<close> a fresh \<open>uuidv4()\<close>, \<open>now\<close> is
  \<open>new Date().toISOString()\<close> and \<open>today\<close> the date under which the file is written.
\<close>

datatype error = NotFound jsstring

definition createConversation ::
  "store \<Rightarrow> jsstring \<Rightarrow> jsstring \<Rightarrow> jsstring \<Rightarrow> jsstring \<Rightarrow> jsstring \<Rightarrow> jsstring
     \<Rightarrow> jsstring \<Rightarrow> jsstring \<times> store" where
  "createConversation st millis uuid now today ttl user proj =
     (let cid = asc ''conv_'' @ millis @ asc ''_'' @ take 8 uuid;
          record = \<lparr>metadata = \<lparr>conversationId = cid, title = ttl, startTime = now,
                                   endTime = [], userName = user, project = proj,
                                   metaSummary = []\<rparr>,
                    summary = [], keyDecisions = [], problemsAndSolutions = [],
                    technicalDetails = \<lparr>usedTechnologies = [], keyCodes = []\<rparr>,
                    todos = [], userFeedback = None, relatedMemories = []\<rparr>
      in (cid, saveConversation st today cid record))"

definition addDecision ::
  "store \<Rightarrow> jsstring \<Rightarrow> jsstring \<Rightarrow> jsstring \<Rightarrow> jsstring \<Rightarrow> jsstring
     \<Rightarrow> (error + unit) \<times> store" where
  "addDecision st today cid dp dec rsn =
     (case loadConversation st cid of
        None \<Rightarrow> (Inl (NotFound cid), st)
      | Some record \<Rightarrow>
          (Inr (), saveConversation st today cid
             (record\<lparr>keyDecisions := keyDecisions record
                        @ [\<lparr>decisionPoint = dp, decision = dec, reason = rsn\<rparr>]\<rparr>)))"






text \<open>
  What \<open>loadConversation\<close> is expected to give back for a record that was saved: each
  metadata value as the parser reads it (\<open>f\<close>), the placeholder for an empty end time,
  and nothing of the body.
\<close>

definition metadataValues :: "ConversationMetadata \<Rightarrow> jsstring list" where
  "metadataValues m =
     [conversationId m, title m, startTime m, endTime m, userName m, project m, metaSummary m]"

text \<open>The value of a metadata line: what stands before the first colon of it, trimmed.\<close>

definition firstSegment :: "jsstring \<Rightarrow> jsstring" where
  "firstSegment v = trim (takeWhile (\<lambda>c. c \<noteq> 58) v)"

definition readBack :: "(jsstring \<Rightarrow> jsstring) \<Rightarrow> ConversationMetadata \<Rightarrow> ConversationMetadata" where
  "readBack f m =
     \<lparr>conversationId = f (conversationId m),
      title = f (title m),
      startTime = f (startTime m),
      endTime = (if endTime m = [] then inProgress else f (endTime m)),
      userName = f (userName m),
      project = f (project m),
      metaSummary = f (metaSummary m)\<rparr>"

definition emptyShell :: "ConversationMetadata \<Rightarrow> ConversationRecord" where
  "emptyShell m =
     \<lparr>metadata = m, summary = [], keyDecisions = [], problemsAndSolutions = [],
      technicalDetails = \<lparr>usedTechnologies = [], keyCodes = []\<rparr>,
      todos = [], userFeedback = None, relatedMemories = []\<rparr>"

section \<open>The coordinator (MemorySystem.retrieveMemories)\<close>

record MemorySystemConfig =
  semanticIndex :: bool
  autoSave :: bool
  autoLoad :: bool

text \<open>
  The preferences and the project context are handed through as they are; their types
  play no part here.
\<close>

record ('p, 'c) MemoryRetrievalResult =
  conversations :: "ConversationRecord list"
  userPreferences :: "'p option"
  projectContext :: "'c option"
  retrievalRelevanceScore :: rat

definition retrieveMemories ::
  "MemorySystemConfig \<Rightarrow> index \<Rightarrow> store \<Rightarrow> 'p option \<Rightarrow> 'c option \<Rightarrow> jsstring \<Rightarrow> int
     \<Rightarrow> ('p, 'c) MemoryRetrievalResult" where
  "retrieveMemories config idx st prefs ctx query limit =
     (let results = \<lparr>conversations = [], userPreferences = prefs, projectContext = ctx,
                     retrievalRelevanceScore = 0\<rparr>
      in if \<not> semanticIndex config then results
         else
           let relatedIds = getRelatedConversationIds idx query limit;
               loaded = foldl (\<lambda>res cid. case loadConversation st cid of
                                           None \<Rightarrow> res
                                         | Some conversation \<Rightarrow>
                                             res\<lparr>conversations := conversations res @ [conversation]\<rparr>)
                          results relatedIds
           in loaded\<lparr>retrievalRelevanceScore := (if length relatedIds > 0 then 0.8 else 0)\<rparr>)"

section \<open>Example data\<close>

text \<open>
  A conversation as \<open>createConversation\<close> writes it, what \<open>loadConversation\<close> reads
  back of its metadata, and two decisions.
\<close>

definition createdId :: jsstring where
  "createdId = asc ''conv_1704067200000_abcdef12''"

definition createdStore :: store where
  "createdStore =
     snd (createConversation [] (asc ''1704067200000'') (asc ''abcdef12-3456-4789-8abc-def012345678'')
            (asc ''2024-01-01T00:00:00.000Z'') (asc ''2024-01-01'')
            (asc ''Auth redesign'') (asc ''alice'') (asc ''core''))"

definition createdMetadata :: ConversationMetadata where
  "createdMetadata =
     \<lparr>conversationId = createdId, title = asc ''Auth redesign'',
      startTime = asc ''2024-01-01T00:00:00.000Z'', endTime = [],
      userName = asc ''alice'', project = asc ''core'', metaSummary = []\<rparr>"

definition reloadedMetadata :: ConversationMetadata where
  "reloadedMetadata =
     \<lparr>conversationId = createdId, title = asc ''Auth redesign'',
      startTime = asc ''2024-01-01T00'', endTime = inProgress,
      userName = asc ''alice'', project = asc ''core'', metaSummary = []\<rparr>"

definition firstDecision :: DecisionRecord where
  "firstDecision = \<lparr>decisionPoint = asc ''token strategy'', decision = asc ''use JWT'',
                     reason = asc ''stateless scaling''\<rparr>"

definition secondDecision :: DecisionRecord where
  "secondDecision = \<lparr>decisionPoint = asc ''storage'', decision = asc ''use files'',
                      reason = asc ''simple''\<rparr>"

definition createdFilename :: jsstring where
  "createdFilename = asc ''2024-01-01_conv_1704067200000_abcdef12_Auth_redesign.md''"

text \<open>
  The same conversation in memory, with one decision whose text and rationale both
  contain the word \<open>jwt\<close>, and the index that holds nothing else.
\<close>

definition jwtDecision :: DecisionRecord where
  "jwtDecision = \<lparr>decisionPoint = asc ''token strategy'', decision = asc ''use JWT'',
                   reason = asc ''JWT scales''\<rparr>"

definition jwtConversation :: ConversationRecord where
  "jwtConversation = (emptyShell createdMetadata)\<lparr>keyDecisions := [jwtDecision]\<rparr>"

definition jwtIndex :: index where
  "jwtIndex = indexConversation jwtConversation []"

text \<open>
  \<open>new Date(s).getTime()\<close> on the one timestamp of the examples, midnight UTC of 1 January
  2024; the examples parse no other string.
\<close>

definition exampleParseDate :: "jsstring \<Rightarrow> int option" where
  "exampleParseDate s = (if s = asc ''2024-01-01T00:00:00.000Z'' then Some 1704067200000 else None)"


section \<open>Properties\<close>

subsection \<open>Keyword extraction\<close>

lemma tokens_dropWhile_space: "tokens (dropWhile isSpace s) = tokens s"
  by (subst tokens.simps, subst (2) tokens.simps) simp

lemma tokens_Nil: "tokens [] = []"
  by (simp add: tokens.simps)

lemma tokens_nonspace:
  assumes "s \<noteq> []" "\<not> isSpace (hd s)"
  shows "tokens s = takeWhile (\<lambda>c. \<not> isSpace c) s # tokens (dropWhile (\<lambda>c. \<not> isSpace c) s)"
proof -
  obtain c cs where s: "s = c # cs" using assms(1) by (cases s) auto
  with assms(2) have "\<not> isSpace c" by simp
  then show ?thesis unfolding s by (subst tokens.simps) simp
qed

lemma tokens_all_nonspace:
  assumes "dropWhile (\<lambda>c. \<not> isSpace c) s = []"
  shows "tokens s = filter (\<lambda>w. w \<noteq> []) [s]"
proof (cases s)
  case Nil
  then show ?thesis by (simp add: tokens_Nil)
next
  case (Cons c cs)
  with assms have c: "\<not> isSpace c" by (auto split: if_splits)
  with Cons assms have d: "dropWhile (\<lambda>x. \<not> isSpace x) cs = []" by simp
  then have t: "takeWhile (\<lambda>x. \<not> isSpace x) cs = cs"
    using takeWhile_dropWhile_id [of "\<lambda>x. \<not> isSpace x" cs] by simp
  show ?thesis unfolding Cons
    by (subst tokens.simps) (simp add: c d t tokens_Nil)
qed

lemma tokens_space_Cons:
  assumes "isSpace c"
  shows "tokens (c # cs) = tokens cs"
proof -
  have "tokens (c # cs) = tokens (dropWhile isSpace (c # cs))"
    by (simp only: tokens_dropWhile_space)
  also have "\<dots> = tokens (dropWhile isSpace cs)" using assms by simp
  also have "\<dots> = tokens cs" by (rule tokens_dropWhile_space)
  finally show ?thesis .
qed

lemma tokens_step:
  assumes "dropWhile (\<lambda>c. \<not> isSpace c) s \<noteq> []"
  shows "tokens s = filter (\<lambda>w. w \<noteq> []) [takeWhile (\<lambda>c. \<not> isSpace c) s]
           @ tokens (dropWhile isSpace (dropWhile (\<lambda>c. \<not> isSpace c) s))"
proof (cases s)
  case Nil
  with assms show ?thesis by simp
next
  case (Cons c cs)
  show ?thesis
  proof (cases "isSpace c")
    case True
    then show ?thesis unfolding Cons by (simp add: tokens_dropWhile_space tokens_space_Cons)
  next
    case False
    have "tokens s = takeWhile (\<lambda>c. \<not> isSpace c) s # tokens (dropWhile (\<lambda>c. \<not> isSpace c) s)"
      by (rule tokens_nonspace) (use Cons False in auto)
    then show ?thesis using False unfolding Cons by (simp add: tokens_dropWhile_space)
  qed
qed

lemma tokens_append_space:
  assumes "\<forall>c\<in>set piece. \<not> isSpace c" "isSpace c"
  shows "tokens (piece @ c # cs) = filter (\<lambda>w. w \<noteq> []) [piece] @ tokens cs"
proof -
  have d: "dropWhile (\<lambda>c. \<not> isSpace c) (piece @ c # cs) = c # cs"
    using assms by (simp add: dropWhile_append)
  have t: "takeWhile (\<lambda>c. \<not> isSpace c) (piece @ c # cs) = piece"
    using assms by (simp add: takeWhile_append)
  have "tokens (piece @ c # cs) = filter (\<lambda>w. w \<noteq> []) [piece] @ tokens (dropWhile isSpace (c # cs))"
    using tokens_step [of "piece @ c # cs"] unfolding d t by simp
  then show ?thesis
    by (simp only: tokens_dropWhile_space tokens_space_Cons [OF assms(2)])
qed

lemma splitWsFrom_tokens:
  assumes "\<forall>c\<in>set piece. \<not> isSpace c" "inSpace \<longrightarrow> piece = []"
  shows "filter (\<lambda>w. w \<noteq> []) (splitWsFrom piece inSpace s) = tokens (piece @ s)"
  using assms
proof (induction s arbitrary: piece inSpace)
  case Nil
  then have "dropWhile (\<lambda>c. \<not> isSpace c) piece = []" by simp
  then show ?case by (simp add: tokens_all_nonspace)
next
  case (Cons c cs)
  show ?case
  proof (cases "isSpace c")
    case True
    have rest: "filter (\<lambda>w. w \<noteq> []) (splitWsFrom [] True cs) = tokens cs"
      using Cons.IH [of "[]" True] by simp
    show ?thesis
    proof (cases inSpace)
      case True
      with Cons.prems have "piece = []" by simp
      with True \<open>isSpace c\<close> rest show ?thesis by (simp add: tokens_space_Cons)
    next
      case False
      with \<open>isSpace c\<close> rest Cons.prems(1) show ?thesis
        by (simp add: tokens_append_space)
    qed
  next
    case False
    then have "filter (\<lambda>w. w \<noteq> []) (splitWsFrom (piece @ [c]) False cs) = tokens ((piece @ [c]) @ cs)"
      using Cons.prems(1) by (intro Cons.IH) auto
    with False show ?thesis by simp
  qed
qed

lemma splitWs_tokens: "filter (\<lambda>w. w \<noteq> []) (splitWs s) = tokens s"
  using splitWsFrom_tokens [of "[]" False s] by (simp add: splitWs_def)

lemma filter_long_splitWs:
  "filter (\<lambda>w. length w > 1) (splitWs s) = filter (\<lambda>w. \<not> length w \<le> 1) (tokens s)"
proof -
  have "filter (\<lambda>w. \<not> length w \<le> 1) (tokens s)
      = filter (\<lambda>w. \<not> length w \<le> 1) (filter (\<lambda>w. w \<noteq> []) (splitWs s))"
    by (simp only: splitWs_tokens)
  also have "\<dots> = filter (\<lambda>w. length w > 1) (splitWs s)"
    unfolding filter_filter by (rule filter_cong) auto
  finally show ?thesis by simp
qed

lemma extract_ab_ab: "extractKeywordsFromString (asc ''ab ab'') = [asc ''ab'', asc ''ab'']"
  by (simp add: extractKeywordsFromString_def splitWs_def toLowerCase_def lowerUnit_def replaceDisallowed_def
      allowedUnit_def isSpace_def stopWords_def asc_def)

text \<open>
  C7, as amended. For every text, \<open>extractKeywordsFromString\<close> returns the list, in text
  order and with repetitions kept, of the tokens obtained by lowercasing the text,
  putting a space for every character outside the allow-list (U+4E00 to U+9FA5, ASCII
  letters and digits, whitespace), splitting on whitespace, and discarding the tokens of
  length at most 1 and the stop words. The elements of that list are the set of the claim.
\<close>

theorem extractKeywordsFromString_as_described:
  "extractKeywordsFromString text = keywordsAsDescribed text
   \<and> set (extractKeywordsFromString text) = keywordSetAsDescribed text"
proof -
  have "extractKeywordsFromString text = keywordsAsDescribed text"
  proof (cases "text = []")
    case True
    then show ?thesis
      by (simp add: extractKeywordsFromString_def keywordsAsDescribed_def toLowerCase_def lowerUnit_def tokens_Nil)
  next
    case False
    then show ?thesis
      unfolding extractKeywordsFromString_def keywordsAsDescribed_def replaceDisallowed_def Let_def
      by (simp only: filter_long_splitWs if_False)
  qed
  then show ?thesis by (simp add: keywordSetAsDescribed_def)
qed


text \<open>
  C7 as stated fails: the result is an array, not a set. A word that occurs twice in the
  text occurs twice in the result.
\<close>

theorem extractKeywordsFromString_duplicates:
  "\<not> distinct (extractKeywordsFromString (asc ''ab ab''))"
  by (simp add: extract_ab_ab)

subsection \<open>The buckets of the index\<close>

lemma map_of_update_all:
  "map_of (map (\<lambda>(k', v'). if k' = k then (k', v) else (k', v')) m) x
     = (if x = k then (if map_of m k = None then None else Some v) else map_of m x)"
  by (induction m) auto

lemma mapGet_mapSet:
  "mapGet (mapSet m k v) x = (if x = k then Some v else mapGet m x)"
  by (auto simp: mapGet_def mapSet_def mapHas_def map_of_update_all map_add_def split: option.splits)

lemma mapHas_mapSet: "mapHas (mapSet m k v) x = (x = k \<or> mapHas m x)"
  using mapGet_mapSet [of m k v x] by (auto simp: mapHas_def mapGet_def)




lemma set_mapSet:
  "set (mapSet m k v) \<subseteq> insert (k, v) (set m)"
  by (auto simp: mapSet_def split: if_splits)

lemma bucketsNonEmpty_pushEntry:
  assumes "bucketsNonEmpty idx"
  shows "bucketsNonEmpty (pushEntry e idx kw)"
proof -
  have "\<And>k es. (k, es) \<in> set (pushEntry e idx kw) \<Longrightarrow> es \<noteq> []"
  proof -
    fix k es assume m: "(k, es) \<in> set (pushEntry e idx kw)"
    show "es \<noteq> []"
    proof (cases "mapHas idx kw")
      case True
      then obtain old where old: "mapGet idx kw = Some old"
        by (auto simp: mapHas_def mapGet_def)
      with True m have "(k, es) \<in> set (mapSet idx kw (old @ [e]))"
        by (simp add: pushEntry_def)
      with set_mapSet have "(k, es) = (kw, old @ [e]) \<or> (k, es) \<in> set idx" by fastforce
      with assms show ?thesis by (auto simp: bucketsNonEmpty_def list_all_iff)
    next
      case False
      then have g: "mapGet (mapSet idx kw []) kw = Some []" by (simp add: mapGet_mapSet)
      with False m have "(k, es) \<in> set (mapSet (mapSet idx kw []) kw ([] @ [e]))"
        by (simp add: pushEntry_def)
      moreover have "mapHas (mapSet idx kw []) kw" by (simp add: mapHas_mapSet)
      moreover have "mapSet idx kw [] = idx @ [(kw, [])]" using False by (simp add: mapSet_def)
      ultimately have "(k, es) \<in> set (map (\<lambda>(k', v'). if k' = kw then (k', [e]) else (k', v')) (idx @ [(kw, [])]))"
        by (simp add: mapSet_def)
      with assms show ?thesis by (auto simp: bucketsNonEmpty_def list_all_iff split: if_splits)
    qed
  qed
  then show ?thesis by (auto simp: bucketsNonEmpty_def list_all_iff)
qed

lemma bucketsNonEmpty_foldl_pushEntry:
  "bucketsNonEmpty idx \<Longrightarrow> bucketsNonEmpty (foldl (pushEntry e) idx kws)"
  by (induction kws arbitrary: idx) (simp_all add: bucketsNonEmpty_pushEntry)

lemma bucketsNonEmpty_foldl_entries:
  "bucketsNonEmpty idx \<Longrightarrow> bucketsNonEmpty (foldl (\<lambda>i x. foldl (pushEntry (mk x)) i (kw x)) idx xs)"
  by (induction xs arbitrary: idx) (simp_all add: bucketsNonEmpty_foldl_pushEntry)

lemma bucketsNonEmpty_indexConversation:
  "bucketsNonEmpty idx \<Longrightarrow> bucketsNonEmpty (indexConversation c idx)"
  unfolding indexConversation_def Let_def
  by (intro bucketsNonEmpty_foldl_entries bucketsNonEmpty_foldl_pushEntry)

lemma bucketsNonEmpty_clearOldEntries:
  "bucketsNonEmpty (clearOldEntries P now d idx)"
  by (induction idx) (auto simp: bucketsNonEmpty_def clearOldEntries_def Let_def)

text \<open>
  C6. Every key of the index maps to a non-empty list: the empty index has the property,
  \<open>indexConversation\<close> keeps it (a bucket is created only to push an entry into it at
  once), and \<open>clearOldEntries\<close> establishes it (a bucket that would be left empty is
  deleted).
\<close>

theorem index_buckets_never_empty:
  "bucketsNonEmpty []
   \<and> (bucketsNonEmpty idx \<longrightarrow> bucketsNonEmpty (indexConversation conversation idx))
   \<and> bucketsNonEmpty (clearOldEntries parseDate now daysToKeep idx)"
  by (simp add: bucketsNonEmpty_indexConversation bucketsNonEmpty_clearOldEntries)
    (simp add: bucketsNonEmpty_def)

theorem index_buckets_never_empty_witness:
  "bucketsNonEmpty []
   \<and> bucketsNonEmpty (indexConversation jwtConversation [])
   \<and> bucketsNonEmpty (clearOldEntries exampleParseDate 1704153599999 1 [])"
  using index_buckets_never_empty [of "[]" jwtConversation exampleParseDate 1704153599999 1]
  by simp

subsection \<open>Eviction\<close>
















subsection \<open>Scores and resolution\<close>

lemma set_dedupFirst [simp]: "set (dedupFirst xs) = set xs"
  by (induction xs rule: dedupFirst.induct) auto

lemma distinct_dedupFirst [simp]: "distinct (dedupFirst xs)"
  by (induction xs rule: dedupFirst.induct) auto

lemma dedupFirst_snoc:
  "dedupFirst (xs @ [x]) = (if x \<in> set xs then dedupFirst xs else dedupFirst xs @ [x])"
  by (induction xs rule: dedupFirst.induct) auto

lemma foldl_scoreKeyword:
  "foldl (scoreKeyword idx) sc kws = foldl addScore sc (hitsOf idx kws)"
  by (induction kws arbitrary: sc) (auto simp: hitsOf_def scoreKeyword_def split: option.splits)

lemma totalWeight_snoc:
  "totalWeight (hits @ [e]) i = totalWeight hits i + (if entryId e = i then relevanceScore e else 0)"
  by (simp add: totalWeight_def)

lemma totalWeight_absent:
  "i \<notin> entryId ` set hits \<Longrightarrow> totalWeight hits i = 0"
proof -
  assume "i \<notin> entryId ` set hits"
  then have "filter (\<lambda>e. entryId e = i) hits = []" by (auto simp: filter_empty_conv)
  then show ?thesis by (simp add: totalWeight_def)
qed

lemma mapGet_scoredIds:
  "mapGet (scoredIds hits) i = (if i \<in> entryId ` set hits then Some (totalWeight hits i) else None)"
proof -
  have "map_of (map (\<lambda>eid. (eid, totalWeight hits eid)) xs) i
          = (if i \<in> set xs then Some (totalWeight hits i) else None)" for xs
    by (induction xs) auto
  then show ?thesis by (simp add: mapGet_def scoredIds_def)
qed

lemma addScore_scoredIds: "addScore (scoredIds hits) e = scoredIds (hits @ [e])"
proof (cases "entryId e \<in> entryId ` set hits")
  case True
  then have has: "mapHas (scoredIds hits) (entryId e)"
    using mapGet_scoredIds [of hits "entryId e"] by (simp add: mapHas_def mapGet_def)
  have "addScore (scoredIds hits) e
      = map (\<lambda>(k', v'). if k' = entryId e then (k', totalWeight hits (entryId e) + relevanceScore e) else (k', v'))
          (scoredIds hits)"
    using True has by (simp add: addScore_def mapGet_scoredIds mapSet_def)
  also have "\<dots> = map (\<lambda>eid. (eid, totalWeight (hits @ [e]) eid)) (dedupFirst (map entryId hits))"
    by (auto simp: scoredIds_def totalWeight_snoc)
  also have "\<dots> = scoredIds (hits @ [e])"
    using True by (simp add: scoredIds_def dedupFirst_snoc)
  finally show ?thesis .
next
  case False
  then have nhas: "\<not> mapHas (scoredIds hits) (entryId e)"
    using mapGet_scoredIds [of hits "entryId e"] by (simp add: mapHas_def mapGet_def)
  have "addScore (scoredIds hits) e = scoredIds hits @ [(entryId e, relevanceScore e)]"
    using False nhas by (simp add: addScore_def mapGet_scoredIds mapSet_def)
  also have "\<dots> = map (\<lambda>eid. (eid, totalWeight (hits @ [e]) eid)) (dedupFirst (map entryId hits) @ [entryId e])"
    using False by (auto simp: scoredIds_def totalWeight_snoc totalWeight_absent)
  also have "\<dots> = scoredIds (hits @ [e])"
    using False by (simp add: scoredIds_def dedupFirst_snoc)
  finally show ?thesis .
qed

lemma foldl_addScore: "foldl addScore [] hits = scoredIds hits"
proof (induction hits rule: rev_induct)
  case Nil
  show ?case by (simp add: scoredIds_def)
next
  case (snoc e hits)
  then show ?case by (simp add: addScore_scoredIds)
qed

lemma computeScores_scoredIds: "computeScores idx kws = scoredIds (hitsOf idx kws)"
  by (simp add: computeScores_def foldl_scoreKeyword foldl_addScore)

lemma scanBucket_seen: "eid \<in> seen \<Longrightarrow> scanBucket eid s es (res, seen) = (res, seen)"
  by (induction es) auto

lemma scanBucket_find:
  "eid \<notin> seen \<Longrightarrow> scanBucket eid s es (res, seen) =
     (case find (\<lambda>e. entryId e = eid) es of
        None \<Rightarrow> (res, seen)
      | Some e \<Rightarrow> (res @ [e\<lparr>relevanceScore := s\<rparr>], insert eid seen))"
  by (induction es) auto

lemma find_append_cases:
  "find P (xs @ ys) = (case find P xs of None \<Rightarrow> find P ys | Some x \<Rightarrow> Some x)"
  by (induction xs) auto

lemma resolve_buckets_seen:
  "eid \<in> seen \<Longrightarrow>
     foldl (\<lambda>st' b. scanBucket eid s (snd b) st') (res, seen) bs = (res, seen)"
  by (induction bs) (auto simp: scanBucket_seen)

lemma resolve_buckets:
  "eid \<notin> seen \<Longrightarrow>
     foldl (\<lambda>st' b. scanBucket eid s (snd b) st') (res, seen) bs =
       (case find (\<lambda>e. entryId e = eid) (concat (map snd bs)) of
          None \<Rightarrow> (res, seen)
        | Some e \<Rightarrow> (res @ [e\<lparr>relevanceScore := s\<rparr>], insert eid seen))"
proof (induction bs arbitrary: res seen)
  case Nil
  show ?case by simp
next
  case (Cons b bs)
  show ?case
  proof (cases "find (\<lambda>e. entryId e = eid) (snd b)")
    case None
    with Cons show ?thesis by (simp add: scanBucket_find find_append_cases)
  next
    case (Some e)
    with Cons.prems show ?thesis
      by (simp add: scanBucket_find find_append_cases resolve_buckets_seen)
  qed
qed

lemma resolveEntry_fresh:
  assumes "fst p \<notin> seen"
  shows "\<exists>seen'. resolveEntry idx (res, seen) p = (res @ resolved idx p, seen') \<and> seen' \<subseteq> insert (fst p) seen"
  using resolve_buckets [OF assms, of "snd p" res idx]
  by (auto simp: resolveEntry_def resolved_def split: option.splits)

lemma foldl_resolveEntry:
  assumes "distinct (map fst ps)" "fst ` set ps \<inter> seen = {}"
  shows "fst (foldl (resolveEntry idx) (res, seen) ps) = res @ concat (map (resolved idx) ps)"
  using assms
proof (induction ps arbitrary: res seen)
  case Nil
  show ?case by simp
next
  case (Cons p ps)
  from Cons.prems have "fst p \<notin> seen" by auto
  from resolveEntry_fresh [OF this] obtain seen' where
    r: "resolveEntry idx (res, seen) p = (res @ resolved idx p, seen')" and s: "seen' \<subseteq> insert (fst p) seen"
    by blast
  have "fst ` set ps \<inter> seen' = {}"
  proof (rule ccontr)
    assume "fst ` set ps \<inter> seen' \<noteq> {}"
    then obtain a where a: "a \<in> fst ` set ps" "a \<in> seen'" by blast
    with s have "a = fst p \<or> a \<in> seen" by blast
    moreover have "fst p \<notin> fst ` set ps" using Cons.prems(1) by simp
    moreover have "a \<notin> seen" using a(1) Cons.prems(2) by auto
    ultimately show False using a(1) by blast
  qed
  moreover have "distinct (map fst ps)" using Cons.prems by simp
  ultimately show ?case using Cons.IH [of seen' "res @ resolved idx p"] r by simp
qed

lemma map_fst_insort_key_set:
  "set (map fst (insort_key f x xs)) = insert (fst x) (set (map fst xs))"
  by (simp add: set_insort_key)

lemma distinct_map_fst_insort_key:
  "distinct (map fst (insort_key f x xs)) = (fst x \<notin> fst ` set xs \<and> distinct (map fst xs))"
  by (induction xs) (auto simp: set_insort_key)

lemma distinct_map_fst_sort_key:
  "distinct (map fst (sort_key f xs)) = distinct (map fst xs)"
  by (induction xs) (auto simp: distinct_map_fst_insort_key)


lemma distinct_map_fst_slice0: "distinct (map fst xs) \<Longrightarrow> distinct (map fst (slice0 xs n))"
  by (simp add: slice0_def take_map [symmetric])

lemma distinct_map_fst_scoredIds: "distinct (map fst (scoredIds hits))"
  by (simp add: scoredIds_def comp_def)

lemma distinct_rankedScores: "distinct (map fst (rankedScores idx query limit))"
  unfolding rankedScores_def
  by (intro distinct_map_fst_slice0) (simp add: distinct_map_fst_sort_key distinct_map_fst_scoredIds)

lemma search_eq: "search idx query limit = concat (map (resolved idx) (rankedScores idx query limit))"
  using foldl_resolveEntry [OF distinct_rankedScores, of idx query limit "{}" idx "[]"]
  by (simp add: search_def Let_def computeScores_scoredIds sortByScore_def rankedScores_def)














lemma extract_use_jwt: "extractKeywordsFromString (asc ''use JWT'') = [asc ''use'', asc ''jwt'']"
  by (simp add: extractKeywordsFromString_def splitWs_def toLowerCase_def lowerUnit_def replaceDisallowed_def
      allowedUnit_def isSpace_def stopWords_def asc_def)

lemma extract_jwt_scales: "extractKeywordsFromString (asc ''JWT scales'') = [asc ''jwt'', asc ''scales'']"
  by (simp add: extractKeywordsFromString_def splitWs_def toLowerCase_def lowerUnit_def replaceDisallowed_def
      allowedUnit_def isSpace_def stopWords_def asc_def)

lemma extract_jwt: "extractKeywordsFromString (asc ''jwt'') = [asc ''jwt'']"
  by (simp add: extractKeywordsFromString_def splitWs_def toLowerCase_def lowerUnit_def replaceDisallowed_def
      allowedUnit_def isSpace_def stopWords_def asc_def)

lemma extract_auth_redesign:
  "extractKeywordsFromString (asc ''Auth redesign'') = [asc ''auth'', asc ''redesign'']"
  by (simp add: extractKeywordsFromString_def splitWs_def toLowerCase_def lowerUnit_def replaceDisallowed_def
      allowedUnit_def isSpace_def stopWords_def asc_def)

lemma extract_core: "extractKeywordsFromString (asc ''core'') = [asc ''core'']"
  by (simp add: extractKeywordsFromString_def splitWs_def toLowerCase_def lowerUnit_def replaceDisallowed_def
      allowedUnit_def isSpace_def stopWords_def asc_def)

lemma extract_empty: "extractKeywordsFromString [] = []"
  by (simp add: extractKeywordsFromString_def)

lemma jwtConversation_keywords:
  "extractKeywords jwtConversation = [asc ''auth'', asc ''redesign'', asc ''core'']"
  by (simp add: extractKeywords_def jwtConversation_def emptyShell_def createdMetadata_def
      extract_auth_redesign extract_core extract_empty)
    (simp add: asc_def)

lemma jwtDecision_keywords:
  "decisionKeywords jwtDecision = [asc ''use'', asc ''jwt'', asc ''jwt'', asc ''scales'']"
  by (simp add: decisionKeywords_def jwtDecision_def extract_use_jwt extract_jwt_scales)

lemma jwtConversation_parts:
  "keyDecisions jwtConversation = [jwtDecision]" "problemsAndSolutions jwtConversation = []"
  by (simp_all add: jwtConversation_def emptyShell_def)

lemma jwtIndex_eq:
  "jwtIndex =
     [(asc ''auth'', [conversationEntry jwtConversation]),
      (asc ''redesign'', [conversationEntry jwtConversation]),
      (asc ''core'', [conversationEntry jwtConversation]),
      (asc ''use'', [decisionEntry jwtConversation jwtDecision]),
      (asc ''jwt'', [decisionEntry jwtConversation jwtDecision, decisionEntry jwtConversation jwtDecision]),
      (asc ''scales'', [decisionEntry jwtConversation jwtDecision])]"
  unfolding jwtIndex_def indexConversation_def Let_def jwtConversation_keywords jwtConversation_parts
    jwtDecision_keywords
  by (simp add: jwtDecision_keywords pushEntry_def mapHas_def mapGet_def mapSet_def asc_def)

lemma jwt_entry_fields:
  "entryId (decisionEntry jwtConversation jwtDecision) = createdId @ asc ''_decision_token strategy''"
  "relevanceScore (decisionEntry jwtConversation jwtDecision) = 9 / 10"
  "entryConversationId (decisionEntry jwtConversation jwtDecision) = createdId"
  "entryId (conversationEntry jwtConversation) = createdId"
  by (simp_all add: decisionEntry_def conversationEntry_def jwtConversation_def emptyShell_def
      createdMetadata_def jwtDecision_def asc_def)

lemma jwt_ids_differ:
  "entryId (conversationEntry jwtConversation) \<noteq> entryId (decisionEntry jwtConversation jwtDecision)"
  by (simp add: jwt_entry_fields asc_def)

lemma jwt_ranked:
  "rankedScores jwtIndex (asc ''jwt'') 10
     = [(entryId (decisionEntry jwtConversation jwtDecision), 9 / 5)]"
  unfolding rankedScores_def extract_jwt
  by (simp add: hitsOf_def jwtIndex_eq mapGet_def scoredIds_def totalWeight_def slice0_def
      jwt_entry_fields(2))
    (simp add: asc_def)

lemma search_jwt:
  "search jwtIndex (asc ''jwt'') 10
     = [(decisionEntry jwtConversation jwtDecision)\<lparr>relevanceScore := 9 / 5\<rparr>]"
  unfolding search_eq jwt_ranked
  using jwt_ids_differ by (simp add: resolved_def jwtIndex_eq)


subsection \<open>Writing and reading a conversation file\<close>

lemma splitOn_nonempty: "splitOn sep s \<noteq> []"
  by (induction s) (auto split: list.splits)

lemma splitOn_nosep: "sep \<notin> set l \<Longrightarrow> splitOn sep l = [l]"
  by (induction l) auto

lemma splitOn_append_sep:
  "sep \<notin> set l \<Longrightarrow> splitOn sep (l @ sep # rest) = l # splitOn sep rest"
  by (induction l) auto

lemma hd_splitOn: "hd (splitOn sep s) = takeWhile (\<lambda>c. c \<noteq> sep) s"
  by (induction s) (auto simp: splitOn_nonempty split: list.splits)

lemma splitOn_hd_tl: "splitOn sep s = takeWhile (\<lambda>c. c \<noteq> sep) s # tl (splitOn sep s)"
  using splitOn_nonempty [of sep s] hd_splitOn [of sep s] by (cases "splitOn sep s") auto

lemma joinWith_Cons: "ls \<noteq> [] \<Longrightarrow> joinWith sep (l # ls) = l @ sep # joinWith sep ls"
  by (cases ls) auto

lemma split_join_prefix:
  assumes "\<forall>l\<in>set ls. sep \<notin> set l" "rest \<noteq> []"
  shows "splitOn sep (joinWith sep (ls @ rest)) = ls @ splitOn sep (joinWith sep rest)"
  using assms
proof (induction ls)
  case Nil
  show ?case by simp
next
  case (Cons l ls)
  then have "joinWith sep ((l # ls) @ rest) = l @ sep # joinWith sep (ls @ rest)"
    by (simp add: joinWith_Cons)
  with Cons show ?case by (simp add: splitOn_append_sep)
qed

lemma includesStr_colon: "includesStr (a @ 58 # b) [58]"
  by (induction a) auto

lemma trim_space_Cons: "isSpace c \<Longrightarrow> trim (c # v) = trim v"
  by (simp add: trim_def)

lemma isSpace_32: "isSpace 32"
  by (simp add: isSpace_def)

lemma parse_dashes: "parseLines b meta (asc ''---'' # ls) = parseLines (\<not> b) meta ls"
  by simp

lemma parse_pair:
  assumes "58 \<notin> set key" "trim key = key" "key \<noteq> []" "hd key \<noteq> 45"
  shows "parseLines True meta ((key @ 58 # 32 # v) # ls)
           = parseLines True (mapSet meta key (firstSegment v)) ls"
proof -
  have ne: "key @ 58 # 32 # v \<noteq> asc ''---''"
    using assms(3,4) by (cases key) (auto simp: asc_def)
  have sp: "splitOn 58 (key @ 58 # 32 # v) = key # (32 # takeWhile (\<lambda>c. c \<noteq> 58) v) # tl (splitOn 58 (32 # v))"
    using splitOn_hd_tl [of 58 "32 # v"] by (simp add: splitOn_append_sep [OF assms(1)])
  have inc: "includesStr (key @ 58 # 32 # v) (asc '':'')"
    using includesStr_colon [of key "32 # v"] by (simp add: asc_def)
  show ?thesis
    using ne inc assms(2)
    by (simp add: sp trim_space_Cons isSpace_32 firstSegment_def del: includesStr.simps splitOn.simps)
qed


lemma parse_empty_line: "parseLines False meta ([] # ls) = parseLines False meta ls"
  by (simp add: asc_def)

lemma parse_heading: "parseLines False meta (summaryHeading # ls) = meta"
  by (simp add: asc_def summaryHeading_def)

lemma metadataLines_eq:
  "metadataLines m =
     [asc ''---'',
      asc ''conversation_id'' @ 58 # 32 # conversationId m,
      asc ''title'' @ 58 # 32 # title m,
      asc ''start_time'' @ 58 # 32 # startTime m,
      asc ''end_time'' @ 58 # 32 # (if endTime m = [] then inProgress else endTime m),
      asc ''user_name'' @ 58 # 32 # userName m,
      asc ''project'' @ 58 # 32 # project m,
      asc ''summary'' @ 58 # 32 # metaSummary m,
      asc ''---'',
      []]"
  by (simp add: metadataLines_def asc_def)

lemma key_conditions:
  "58 \<notin> set (asc ''conversation_id'')" "trim (asc ''conversation_id'') = asc ''conversation_id''"
  "asc ''conversation_id'' \<noteq> []" "hd (asc ''conversation_id'') \<noteq> 45"
  "58 \<notin> set (asc ''title'')" "trim (asc ''title'') = asc ''title''"
  "asc ''title'' \<noteq> []" "hd (asc ''title'') \<noteq> 45"
  "58 \<notin> set (asc ''start_time'')" "trim (asc ''start_time'') = asc ''start_time''"
  "asc ''start_time'' \<noteq> []" "hd (asc ''start_time'') \<noteq> 45"
  "58 \<notin> set (asc ''end_time'')" "trim (asc ''end_time'') = asc ''end_time''"
  "asc ''end_time'' \<noteq> []" "hd (asc ''end_time'') \<noteq> 45"
  "58 \<notin> set (asc ''user_name'')" "trim (asc ''user_name'') = asc ''user_name''"
  "asc ''user_name'' \<noteq> []" "hd (asc ''user_name'') \<noteq> 45"
  "58 \<notin> set (asc ''project'')" "trim (asc ''project'') = asc ''project''"
  "asc ''project'' \<noteq> []" "hd (asc ''project'') \<noteq> 45"
  "58 \<notin> set (asc ''summary'')" "trim (asc ''summary'') = asc ''summary''"
  "asc ''summary'' \<noteq> []" "hd (asc ''summary'') \<noteq> 45"
  by (simp_all add: asc_def trim_def isSpace_def)

lemma parse_metadataLines:
  "parseLines False [] (metadataLines m @ summaryHeading # ls) =
     mapSet (mapSet (mapSet (mapSet (mapSet (mapSet (mapSet []
       (asc ''conversation_id'') (firstSegment (conversationId m)))
       (asc ''title'') (firstSegment (title m)))
       (asc ''start_time'') (firstSegment (startTime m)))
       (asc ''end_time'') (firstSegment (if endTime m = [] then inProgress else endTime m)))
       (asc ''user_name'') (firstSegment (userName m)))
       (asc ''project'') (firstSegment (project m)))
       (asc ''summary'') (firstSegment (metaSummary m))"
  unfolding metadataLines_eq
  by (simp only: append_Cons append_Nil parse_dashes parse_pair key_conditions parse_empty_line
      parse_heading not_False_eq_True not_True_eq_False)

lemma field_lookups:
  fixes a b c d e f g :: jsstring
  defines "meta \<equiv> mapSet (mapSet (mapSet (mapSet (mapSet (mapSet (mapSet []
       (asc ''conversation_id'') a) (asc ''title'') b) (asc ''start_time'') c)
       (asc ''end_time'') d) (asc ''user_name'') e) (asc ''project'') f) (asc ''summary'') g"
  shows "field meta (asc ''conversation_id'') = a" "field meta (asc ''title'') = b"
    "field meta (asc ''start_time'') = c" "field meta (asc ''end_time'') = d"
    "field meta (asc ''user_name'') = e" "field meta (asc ''project'') = f"
    "field meta (asc ''summary'') = g"
  by (simp_all add: meta_def field_def mapGet_mapSet asc_def)

lemma no_newline_constants:
  "10 \<notin> set (asc ''---'')" "10 \<notin> set inProgress" "10 \<notin> set summaryHeading"
  "10 \<notin> set (asc ''conversation_id'')" "10 \<notin> set (asc ''title'')"
  "10 \<notin> set (asc ''start_time'')" "10 \<notin> set (asc ''end_time'')"
  "10 \<notin> set (asc ''user_name'')" "10 \<notin> set (asc ''project'')" "10 \<notin> set (asc ''summary'')"
  by (simp_all add: asc_def inProgress_def summaryHeading_def)

lemma bodyLines_shape: "\<exists>rest. bodyLines record = summaryHeading # [] # rest"
  by (simp add: bodyLines_def)

lemma lines_of_format:
  assumes "\<forall>v\<in>set (metadataValues (metadata record)). 10 \<notin> set v"
  shows "\<exists>ls. splitOn 10 (formatConversationMarkdown record)
               = metadataLines (metadata record) @ summaryHeading # ls"
proof -
  obtain rest where body: "bodyLines record = summaryHeading # [] # rest"
    using bodyLines_shape by blast
  have clean: "\<forall>l\<in>set (metadataLines (metadata record)). 10 \<notin> set l"
    using assms unfolding metadataLines_eq metadataValues_def
    by (simp add: no_newline_constants)
  have "splitOn 10 (formatConversationMarkdown record)
          = metadataLines (metadata record) @ splitOn 10 (joinWith 10 (summaryHeading # [] # rest))"
    unfolding formatConversationMarkdown_def body
    by (rule split_join_prefix [OF clean]) simp
  also have "splitOn 10 (joinWith 10 (summaryHeading # [] # rest))
          = summaryHeading # splitOn 10 (joinWith 10 ([] # rest))"
    using split_join_prefix [of "[summaryHeading]" 10 "[] # rest"]
    by (simp add: no_newline_constants)
  finally show ?thesis by blast
qed

lemma parse_format:
  assumes "\<forall>v\<in>set (metadataValues (metadata record)). 10 \<notin> set v"
  shows "parseConversationMarkdown (formatConversationMarkdown record)
           = Some (emptyShell (readBack firstSegment (metadata record)))"
proof -
  obtain ls where l: "splitOn 10 (formatConversationMarkdown record)
               = metadataLines (metadata record) @ summaryHeading # ls"
    using lines_of_format [OF assms] by blast
  have ip: "firstSegment inProgress = inProgress"
    by (simp add: firstSegment_def inProgress_def trim_def isSpace_def)
  show ?thesis
    unfolding parseConversationMarkdown_def Let_def l parse_metadataLines field_lookups
    by (simp add: emptyShell_def readBack_def ip)
qed


lemma startsWith_append: "startsWith (b @ c) b"
  by (induction b) auto

lemma includesStr_mid: "includesStr (a @ b @ c) b"
proof (induction a)
  case Nil
  show ?case by (cases "b @ c") (use startsWith_append [of b c] in auto)
next
  case (Cons x a)
  then show ?case by simp
qed

lemma includesStr_filename: "includesStr (conversationFilename today cid record) cid"
proof -
  have "conversationFilename today cid record
      = (today @ asc ''_'') @ cid @ (asc ''_'' @ sanitizeTitle (title (metadata record)) @ asc ''.md'')"
    by (simp only: conversationFilename_def append_assoc)
  then show ?thesis by (simp only: includesStr_mid)
qed

lemma find_unique:
  assumes "x \<in> set xs" "P x" "\<forall>y\<in>set xs. P y \<longrightarrow> y = x"
  shows "find P xs = Some x"
proof -
  from assms(1,2) obtain y where y: "find P xs = Some y"
    by (cases "find P xs") (auto simp: find_None_iff)
  then have "y \<in> set xs" "P y" by (auto simp: find_Some_iff)
  with assms(3) have "y = x" by blast
  with y show ?thesis by simp
qed

lemma map_fst_update_all:
  "map fst (map (\<lambda>(k', v'). if k' = k then (k', v) else (k', v')) m) = map fst m"
  by (induction m) auto

lemma storageList_mapSet:
  "set (storageList (mapSet st f c)) = insert f (set (storageList st))"
proof (cases "mapHas st f")
  case True
  then have "f \<in> set (map fst st)"
    by (simp add: mapHas_def map_of_eq_None_iff)
  moreover have "storageList (mapSet st f c) = map fst st"
    using True by (simp only: storageList_def mapSet_def if_True map_fst_update_all)
  ultimately show ?thesis
    by (simp only: storageList_def insert_absorb)
next
  case False
  then show ?thesis by (simp add: storageList_def mapSet_def)
qed

lemma loadConversation_saveConversation:
  assumes "\<forall>f\<in>set (storageList st). includesStr f cid \<longrightarrow> f = conversationFilename today cid record"
  shows "loadConversation (saveConversation st today cid record) cid
           = parseConversationMarkdown (formatConversationMarkdown record)"
proof -
  let ?f = "conversationFilename today cid record"
  let ?st = "mapSet st ?f (formatConversationMarkdown record)"
  have "find (\<lambda>f. includesStr f cid) (storageList ?st) = Some ?f"
    using assms by (intro find_unique) (auto simp: storageList_mapSet includesStr_filename)
  then show ?thesis
    by (simp add: loadConversation_def saveConversation_def storageWrite_def mapGet_mapSet)
qed

lemma firstSegment_no_colon: "58 \<notin> set v \<Longrightarrow> firstSegment v = trim v"
proof -
  assume "58 \<notin> set v"
  then have tw: "takeWhile (\<lambda>c. c \<noteq> 58) v = v" by (intro takeWhile_eq_all_conv [THEN iffD2]) auto
  show ?thesis unfolding firstSegment_def tw ..
qed

lemma readBack_no_colon:
  assumes "\<forall>v\<in>set (metadataValues m). 58 \<notin> set v"
  shows "readBack firstSegment m = readBack trim m"
  using assms by (simp add: readBack_def metadataValues_def firstSegment_no_colon)





text \<open>
  Whatever file it reads, \<open>loadConversation\<close> returns a record without body; so the
  record that \<open>addDecision\<close> saves holds the new decision and no other.
\<close>

lemma loadConversation_loses_body:
  assumes "loadConversation st cid = Some r"
  shows "summary r = [] \<and> keyDecisions r = [] \<and> problemsAndSolutions r = [] \<and> todos r = []"
  using assms
  by (auto simp: loadConversation_def parseConversationMarkdown_def Let_def split: option.splits)

lemma addDecision_saves_one_decision:
  assumes "addDecision st today cid dp dec rsn = (Inr (), st')"
  shows "\<exists>r. st' = saveConversation st today cid r
             \<and> keyDecisions r = [\<lparr>decisionPoint = dp, decision = dec, reason = rsn\<rparr>]"
proof (cases "loadConversation st cid")
  case None
  with assms show ?thesis by (simp add: addDecision_def)
next
  case (Some r)
  then have "keyDecisions r = []" using loadConversation_loses_body by blast
  with Some assms show ?thesis by (auto simp: addDecision_def)
qed

subsection \<open>The store on a conversation that was just created\<close>

lemma createdStore_eq:
  "createdStore = saveConversation [] (asc ''2024-01-01'') createdId (emptyShell createdMetadata)"
  by (simp add: createdStore_def createConversation_def Let_def emptyShell_def createdMetadata_def
      createdId_def asc_def)

lemma created_filename:
  "title (metadata r) = asc ''Auth redesign'' \<Longrightarrow>
     conversationFilename (asc ''2024-01-01'') createdId r = createdFilename"
  by (simp add: conversationFilename_def createdFilename_def createdId_def sanitizeTitle_def asc_def)

lemma created_values_clean:
  "\<forall>v\<in>set (metadataValues createdMetadata). 10 \<notin> set v"
  by (simp add: metadataValues_def createdMetadata_def createdId_def asc_def)

lemma reloaded_values_clean:
  "\<forall>v\<in>set (metadataValues reloadedMetadata). 58 \<notin> set v \<and> 10 \<notin> set v"
  by (simp add: metadataValues_def reloadedMetadata_def createdId_def inProgress_def asc_def)

lemma readBack_created: "readBack firstSegment createdMetadata = reloadedMetadata"
  by (simp add: readBack_def createdMetadata_def reloadedMetadata_def firstSegment_def trim_def
      isSpace_def createdId_def asc_def)

lemma readBack_reloaded: "readBack trim reloadedMetadata = reloadedMetadata"
  by (simp add: readBack_def reloadedMetadata_def trim_def isSpace_def createdId_def
      inProgress_def asc_def)

lemma load_createdStore: "loadConversation createdStore createdId = Some (emptyShell reloadedMetadata)"
  unfolding createdStore_eq
  by (subst loadConversation_saveConversation)
    (simp_all add: storageList_def parse_format emptyShell_def [of createdMetadata, THEN arg_cong [where f = metadata]]
      created_values_clean readBack_created)


lemma metadata_emptyShell: "metadata (emptyShell m) = m"
  by (simp add: emptyShell_def)






lemma createdStore_files:
  "createdStore = [(createdFilename, formatConversationMarkdown (emptyShell createdMetadata))]"
  unfolding createdStore_eq saveConversation_def storageWrite_def
  by (simp add: created_filename metadata_emptyShell createdMetadata_def mapSet_def mapHas_def)

lemma reloaded_title:
  "title (metadata ((emptyShell reloadedMetadata)\<lparr>keyDecisions := ds\<rparr>)) = asc ''Auth redesign''"
  by (simp add: emptyShell_def reloadedMetadata_def)

lemma save_over_created:
  "saveConversation [(createdFilename, c)] (asc ''2024-01-01'') createdId
       ((emptyShell reloadedMetadata)\<lparr>keyDecisions := ds\<rparr>)
     = [(createdFilename, formatConversationMarkdown ((emptyShell reloadedMetadata)\<lparr>keyDecisions := ds\<rparr>))]"
  unfolding saveConversation_def storageWrite_def created_filename [OF reloaded_title]
  by (simp add: mapSet_def mapHas_def)

lemma save_new:
  "title (metadata r) = asc ''Auth redesign'' \<Longrightarrow>
     saveConversation [] (asc ''2024-01-01'') createdId r = [(createdFilename, formatConversationMarkdown r)]"
  by (simp add: saveConversation_def storageWrite_def created_filename mapSet_def mapHas_def)

lemma load_reloaded:
  "loadConversation [(createdFilename, formatConversationMarkdown ((emptyShell reloadedMetadata)\<lparr>keyDecisions := ds\<rparr>))]
     createdId = Some (emptyShell reloadedMetadata)"
proof -
  let ?r = "(emptyShell reloadedMetadata)\<lparr>keyDecisions := ds\<rparr>"
  have m: "metadata ?r = reloadedMetadata" by (simp add: emptyShell_def)
  have clean: "\<forall>v\<in>set (metadataValues (metadata ?r)). 10 \<notin> set v"
    unfolding m using reloaded_values_clean by blast
  have nocolon: "\<forall>v\<in>set (metadataValues reloadedMetadata). 58 \<notin> set v"
    using reloaded_values_clean by blast
  have "loadConversation (saveConversation [] (asc ''2024-01-01'') createdId ?r) createdId
          = parseConversationMarkdown (formatConversationMarkdown ?r)"
    by (rule loadConversation_saveConversation) (simp add: storageList_def)
  also have "\<dots> = Some (emptyShell (readBack firstSegment reloadedMetadata))"
    using parse_format [OF clean] by (simp only: m)
  also have "\<dots> = Some (emptyShell reloadedMetadata)"
    by (simp only: readBack_no_colon [OF nocolon] readBack_reloaded)
  finally show ?thesis by (simp only: save_new [OF reloaded_title])
qed

text \<open>
  C1 fails on the code. Two decisions are added to a conversation that was just created.
  The second call loads the record from the file, and the parser gives it no decisions: the
  record that the second call holds in memory and saves has the second decision only, and
  the file it writes replaces the one that held the first.
\<close>

theorem addDecision_forgets_earlier_decision:
  "addDecision createdStore (asc ''2024-01-01'') createdId
       (decisionPoint firstDecision) (decision firstDecision) (reason firstDecision)
     = (Inr (), [(createdFilename,
                  formatConversationMarkdown ((emptyShell reloadedMetadata)\<lparr>keyDecisions := [firstDecision]\<rparr>))])
   \<and> addDecision
         [(createdFilename,
           formatConversationMarkdown ((emptyShell reloadedMetadata)\<lparr>keyDecisions := [firstDecision]\<rparr>))]
         (asc ''2024-01-01'') createdId
         (decisionPoint secondDecision) (decision secondDecision) (reason secondDecision)
     = (Inr (), [(createdFilename,
                  formatConversationMarkdown ((emptyShell reloadedMetadata)\<lparr>keyDecisions := [secondDecision]\<rparr>))])
   \<and> keyDecisions ((emptyShell reloadedMetadata)\<lparr>keyDecisions := [secondDecision]\<rparr>) \<noteq> [firstDecision, secondDecision]"
proof (intro conjI)
  have e: "keyDecisions (emptyShell reloadedMetadata) = []" by (simp add: emptyShell_def)
  show "addDecision createdStore (asc ''2024-01-01'') createdId
       (decisionPoint firstDecision) (decision firstDecision) (reason firstDecision)
     = (Inr (), [(createdFilename,
                  formatConversationMarkdown ((emptyShell reloadedMetadata)\<lparr>keyDecisions := [firstDecision]\<rparr>))])"
    unfolding addDecision_def load_createdStore
    by (simp add: e createdStore_files save_over_created firstDecision_def)
  show "addDecision
         [(createdFilename,
           formatConversationMarkdown ((emptyShell reloadedMetadata)\<lparr>keyDecisions := [firstDecision]\<rparr>))]
         (asc ''2024-01-01'') createdId
         (decisionPoint secondDecision) (decision secondDecision) (reason secondDecision)
     = (Inr (), [(createdFilename,
                  formatConversationMarkdown ((emptyShell reloadedMetadata)\<lparr>keyDecisions := [secondDecision]\<rparr>))])"
    unfolding addDecision_def load_reloaded
    by (simp add: e save_over_created secondDecision_def)
  show "keyDecisions ((emptyShell reloadedMetadata)\<lparr>keyDecisions := [secondDecision]\<rparr>) \<noteq> [firstDecision, secondDecision]"
    by simp
qed

subsection \<open>Retrieval of memories\<close>

lemma foldl_load_conversations:
  "foldl (\<lambda>res cid. case loadConversation st cid of
                        None \<Rightarrow> res
                      | Some conversation \<Rightarrow> res\<lparr>conversations := conversations res @ [conversation]\<rparr>)
         res ids
     = res\<lparr>conversations := conversations res @ List.map_filter (loadConversation st) ids\<rparr>"
  by (induction ids arbitrary: res) (auto split: option.splits)

text \<open>
  C8. With semantic indexing disabled \<open>retrieveMemories\<close> returns no conversations. With
  it enabled, the conversations are those of the related ids that load, in the order of
  the ids, and the relevance score is 0.8 when there is a related id and 0 when there is
  none.
\<close>

theorem retrieveMemories_result:
  "(\<not> semanticIndex config \<longrightarrow>
      retrieveMemories config idx st prefs ctx query limit
        = \<lparr>conversations = [], userPreferences = prefs, projectContext = ctx,
           retrievalRelevanceScore = 0\<rparr>)
   \<and> (semanticIndex config \<longrightarrow>
        retrieveMemories config idx st prefs ctx query limit
          = \<lparr>conversations =
               List.map_filter (loadConversation st) (getRelatedConversationIds idx query limit),
             userPreferences = prefs, projectContext = ctx,
             retrievalRelevanceScore =
               (if getRelatedConversationIds idx query limit \<noteq> [] then 0.8 else 0)\<rparr>)"
proof (cases "semanticIndex config")
  case False
  then show ?thesis by (simp add: retrieveMemories_def)
next
  case True
  let ?ids = "getRelatedConversationIds idx query limit"
  let ?empty = "\<lparr>conversations = [], userPreferences = prefs, projectContext = ctx,
                  retrievalRelevanceScore = 0\<rparr>"
  have loaded: "foldl (\<lambda>res cid. case loadConversation st cid of
                        None \<Rightarrow> res
                      | Some conversation \<Rightarrow> res\<lparr>conversations := conversations res @ [conversation]\<rparr>)
                  ?empty ?ids
          = ?empty\<lparr>conversations := List.map_filter (loadConversation st) ?ids\<rparr>"
    by (simp add: foldl_load_conversations)
  have score: "(length ?ids > 0) = (?ids \<noteq> [])" by simp
  show ?thesis
    using True unfolding retrieveMemories_def Let_def loaded score by simp
qed

lemma related_jwt: "getRelatedConversationIds jwtIndex (asc ''jwt'') 10 = [createdId]"
  by (simp add: getRelatedConversationIds_def search_jwt jwt_entry_fields)

theorem retrieveMemories_result_witness:
  "conversations (retrieveMemories \<lparr>semanticIndex = False, autoSave = True, autoLoad = True\<rparr>
       jwtIndex createdStore (None :: unit option) (None :: unit option) (asc ''jwt'') 10) = []
   \<and> conversations (retrieveMemories \<lparr>semanticIndex = True, autoSave = True, autoLoad = True\<rparr>
       jwtIndex createdStore (None :: unit option) (None :: unit option) (asc ''jwt'') 10)
       = [emptyShell reloadedMetadata]
   \<and> retrievalRelevanceScore (retrieveMemories \<lparr>semanticIndex = True, autoSave = True, autoLoad = True\<rparr>
       jwtIndex createdStore (None :: unit option) (None :: unit option) (asc ''jwt'') 10) = 4 / 5"
  using retrieveMemories_result [of "\<lparr>semanticIndex = False, autoSave = True, autoLoad = True\<rparr>"
      jwtIndex createdStore "None :: unit option" "None :: unit option" "asc ''jwt''" 10]
    retrieveMemories_result [of "\<lparr>semanticIndex = True, autoSave = True, autoLoad = True\<rparr>"
      jwtIndex createdStore "None :: unit option" "None :: unit option" "asc ''jwt''" 10]
  by (simp add: related_jwt load_createdStore)

end
